theory Spec2Isabelle
  imports Complex_Main "HOL-Library.Word"
begin

section \<open>Data model of the face-upload pipeline\<close>

text \<open>
  The rows of the two tables follow the migration
  \<^verbatim>\<open>20251202173847_add_face_upload_system.sql\<close>; the columns that no function of the
  pipeline reads or writes (\<^verbatim>\<open>id\<close>, \<^verbatim>\<open>created_at\<close>, \<^verbatim>\<open>ip_address\<close>) are left out.
  Timestamps are milliseconds since the epoch (what \<^verbatim>\<open>Date.getTime()\<close> returns), JavaScript
  numbers that only ever hold integers are \<open>int\<close>, and so are the integer columns, whose
  32-bit range is checked where a value is written to them (\<open>int4_ok\<close> below). The
  transform parameters are \<open>real\<close> (no arithmetic is done on them, they are only tested
  for falsiness and passed on).
\<close>

datatype fstate = FS_none | FS_pending | FS_approved | FS_rejected | FS_flagged

datatype outcome_t = O_pending | O_accepted | O_rejected | O_flagged

text \<open>The \<^verbatim>\<open>face_meta\<close> column (jsonb): the column default has no width and height.\<close>

record meta =
  width :: "int option"
  height :: "int option"
  scale :: real
  rotation :: real
  offsetX :: real
  offsetY :: real

record profile =
  face_path :: "string option"
  face_url :: "string option"
  face_version :: int
  face_state :: fstate
  face_meta :: meta
  upload_count_today :: int
  last_upload_reset :: int
  updated_at :: int

record upload_log =
  log_user_id :: string
  upload_id :: string
  raw_path :: string
  processed_path :: "string option"
  outcome :: outcome_t
  reason :: "string option"
  file_size :: int
  mime_type :: string

text \<open>An object of the bucket \<^verbatim>\<open>user-faces\<close>: its bytes and its content type.\<close>

record blob =
  blob_bytes :: "8 word list"
  blob_type :: string

text \<open>
  The stores: one profile per \<^verbatim>\<open>user_id\<close> (the column is UNIQUE), the log table as the
  list of its rows (\<^verbatim>\<open>upload_id\<close> is not declared unique), the bucket as a map from paths.
\<close>

record state =
  profiles :: "string \<rightharpoonup> profile"
  logs :: "upload_log list"
  storage :: "string \<rightharpoonup> blob"

text \<open>\<^verbatim>\<open>.from('profiles').update(...).eq('user_id', u)\<close>: no row, no change.\<close>

definition update_profile :: "state \<Rightarrow> string \<Rightarrow> (profile \<Rightarrow> profile) \<Rightarrow> state" where
  "update_profile st u f =
     (case profiles st u of
        None \<Rightarrow> st
      | Some p \<Rightarrow> st\<lparr>profiles := (profiles st)(u \<mapsto> f p)\<rparr>)"

text \<open>
  The columns \<^verbatim>\<open>face_version\<close> and \<^verbatim>\<open>upload_count_today\<close> are \<^verbatim>\<open>integer\<close>, 32 bits
  (migration, lines 27 and 30): the store rejects an UPDATE that gives one of them a
  value outside this range, and no column of the row changes.
\<close>

definition int4_ok :: "int \<Rightarrow> bool" where
  "int4_ok n = (- 2147483648 \<le> n \<and> n \<le> 2147483647)"

text \<open>
  What a payload gives an integer column: a number, or the request builder that
  \<^verbatim>\<open>supabase.rpc(...)\<close> is as long as it is not awaited.
\<close>

datatype payload_int = Num int | Builder

text \<open>
  \<^verbatim>\<open>supabase.rpc('increment', { x: 1 })\<close> as line 148 of ProfileService.ts uses it, as a
  value and without \<^verbatim>\<open>await\<close>: the builder of a request that is not sent. The counter
  of the row is not passed to it and no function of the database runs.
\<close>

definition supabase_rpc :: "string \<Rightarrow> int \<Rightarrow> payload_int" where
  "supabase_rpc fn x = Builder"

text \<open>
  The UPDATE of lines 145 to 151 of ProfileService.ts, of the counter and the state
  together. The store rejects it as a whole when the value for the counter is no integer
  of the column; the error it returns is not looked at.
\<close>

definition update_count_and_state :: "state \<Rightarrow> string \<Rightarrow> payload_int \<Rightarrow> fstate \<Rightarrow> state" where
  "update_count_and_state st u c fs =
     (case c of
        Num n \<Rightarrow>
          if int4_ok n
          then update_profile st u (\<lambda>p. p\<lparr>upload_count_today := n, face_state := fs\<rparr>)
          else st
      | Builder \<Rightarrow> st)"

text \<open>\<^verbatim>\<open>.from('face_upload_logs').update(...).eq('upload_id', i)\<close>: every matching row.\<close>

definition update_logs :: "state \<Rightarrow> string \<Rightarrow> (upload_log \<Rightarrow> upload_log) \<Rightarrow> state" where
  "update_logs st i f =
     st\<lparr>logs := map (\<lambda>l. if upload_id l = i then f l else l) (logs st)\<rparr>"

definition insert_log :: "state \<Rightarrow> upload_log \<Rightarrow> state" where
  "insert_log st l = st\<lparr>logs := logs st @ [l]\<rparr>"

text \<open>
  \<^verbatim>\<open>storage.from('user-faces').upload(path, body, {contentType, upsert})\<close>. The first
  argument is the fault of the store at this call, if any (an outage); without
  \<^verbatim>\<open>upsert\<close> an existing object is not overwritten.
\<close>

definition storage_upload ::
  "string option \<Rightarrow> state \<Rightarrow> string \<Rightarrow> blob \<Rightarrow> bool \<Rightarrow> string + state" where
  "storage_upload fault st path b upsert =
     (case fault of
        Some msg \<Rightarrow> Inl msg
      | None \<Rightarrow>
          if \<not> upsert \<and> storage st path \<noteq> None then Inl ''The resource already exists''
          else Inr (st\<lparr>storage := (storage st)(path \<mapsto> b)\<rparr>))"

text \<open>\<^verbatim>\<open>storage.from('user-faces').download(path)\<close>.\<close>

definition storage_download :: "string option \<Rightarrow> state \<Rightarrow> string \<Rightarrow> string + blob" where
  "storage_download fault st path =
     (case fault of
        Some msg \<Rightarrow> Inl msg
      | None \<Rightarrow> (case storage st path of None \<Rightarrow> Inl ''Object not found'' | Some b \<Rightarrow> Inr b))"

section \<open>Small JavaScript idioms\<close>

text \<open>\<^verbatim>\<open>x || d\<close> on a number that may be missing: a missing value and zero are both falsy.\<close>

definition js_or :: "'a::zero option \<Rightarrow> 'a \<Rightarrow> 'a" where
  "js_or x d = (case x of None \<Rightarrow> d | Some v \<Rightarrow> if v = 0 then d else v)"

text \<open>A template literal prints an integer in decimal.\<close>

definition digit_char :: "nat \<Rightarrow> char" where
  "digit_char d = ''0123456789'' ! d"

fun string_of_nat :: "nat \<Rightarrow> string" where
  "string_of_nat n =
     (if n < 10 then [digit_char n] else string_of_nat (n div 10) @ [digit_char (n mod 10)])"

definition string_of_int :: "int \<Rightarrow> string" where
  "string_of_int i = (if i < 0 then CHR ''-'' # string_of_nat (nat (- i)) else string_of_nat (nat i))"

text \<open>\<^verbatim>\<open>name.split('.').pop()\<close>: what follows the last dot, the whole name without one.\<close>

definition split_pop :: "string \<Rightarrow> string" where
  "split_pop name = rev (takeWhile (\<lambda>c. c \<noteq> CHR ''.'') (rev name))"

section \<open>Upload admission\<close>

definition allowedTypes :: "string list" where
  "allowedTypes = [''image/jpeg'', ''image/jpg'', ''image/png'', ''image/webp'']"

definition max_file_size :: int where
  "max_file_size = 5 * 1024 * 1024"

text \<open>
  The two checks of \<^verbatim>\<open>uploadFaceImage\<close> (ProfileService.ts, lines 113 to 120): the error
  returned to the caller, if any.
\<close>

definition local_admission :: "int \<Rightarrow> string \<Rightarrow> string option" where
  "local_admission fileSize mimeType =
     (if fileSize > max_file_size then Some ''File size exceeds 5MB limit''
      else if mimeType \<notin> set allowedTypes
      then Some ''Invalid file type. Only JPG, PNG, and WebP allowed.''
      else None)"

text \<open>
  The two checks of the processing function (lines 48 to 77): the reason written to the
  log and the error of the response, which differ for the type rule.
\<close>

definition server_admission :: "int \<Rightarrow> string \<Rightarrow> (string \<times> string) option" where
  "server_admission fileSize mimeType =
     (if fileSize > max_file_size
      then Some (''File size exceeds 5MB limit'', ''File size exceeds 5MB limit'')
      else if mimeType \<notin> set allowedTypes
      then Some (''Invalid file type. Only JPG, PNG, and WebP allowed.'', ''Invalid file type'')
      else None)"

section \<open>Rate limiter\<close>

record upload_limit =
  canUpload :: bool
  remaining :: int

text \<open>
  Line 78: the hours since the last reset, a quotient of the difference in milliseconds.
  The quotient is taken in the reals; for the integers a \<^verbatim>\<open>Date\<close> holds, the rounded
  quotient of the source is at least 24 exactly when the real one is.
\<close>

definition hoursSinceReset :: "int \<Rightarrow> int \<Rightarrow> real" where
  "hoursSinceReset now lastReset = real_of_int (now - lastReset) / (1000 * 60 * 60)"

text \<open>
  \<^verbatim>\<open>checkUploadLimit\<close> (ProfileService.ts, lines 65 to 97); \<open>now\<close> is the clock reading
  of \<^verbatim>\<open>new Date()\<close>.
\<close>

definition checkUploadLimit :: "int \<Rightarrow> state \<Rightarrow> string \<Rightarrow> upload_limit \<times> state" where
  "checkUploadLimit now st userId =
     (case profiles st userId of
        None \<Rightarrow> (\<lparr>canUpload = True, remaining = 3\<rparr>, st)
      | Some p \<Rightarrow>
          if hoursSinceReset now (last_upload_reset p) \<ge> 24
          then (\<lparr>canUpload = True, remaining = 3\<rparr>,
                update_profile st userId
                  (\<lambda>q. q\<lparr>upload_count_today := 0, last_upload_reset := now\<rparr>))
          else (\<lparr>canUpload = upload_count_today p < 3,
                 remaining = max 0 (3 - upload_count_today p)\<rparr>, st))"

section \<open>Processing function\<close>

text \<open>The request body \<^verbatim>\<open>ProcessFaceRequest\<close>: every transform field may be missing.\<close>

record face_meta_req =
  rq_scale :: "real option"
  rq_rotation :: "real option"
  rq_offsetX :: "real option"
  rq_offsetY :: "real option"

record process_face_request =
  req_user_id :: string
  req_raw_path :: string
  req_upload_id :: string
  req_face_meta :: "face_meta_req option"

text \<open>
  What the handler takes from outside the stores: the public URL the storage service
  gives a path, the faults of the store at the download and at the upload of this call,
  and the clock.
\<close>

record proc_env =
  publicUrl :: "string \<Rightarrow> string"
  download_fault :: "string option"
  upload_fault :: "string option"
  server_now :: int

text \<open>
  The responses: the answer to a CORS preflight, \<^verbatim>\<open>{ok: false, error}\<close> with its status,
  and \<^verbatim>\<open>{ok: true, face_url, face_version, state, meta}\<close>.
\<close>

datatype response =
    Preflight
  | Failure nat string
  | Success string int string meta

text \<open>Lines 108 to 115: \<^verbatim>\<open>face_meta?.scale || 1.0\<close> and its three siblings.\<close>

definition normalize_meta :: "face_meta_req option \<Rightarrow> meta" where
  "normalize_meta fm =
     \<lparr>width = Some 512,
      height = Some 512,
      scale = js_or (Option.bind fm rq_scale) 1.0,
      rotation = js_or (Option.bind fm rq_rotation) 0,
      offsetX = js_or (Option.bind fm rq_offsetX) 0,
      offsetY = js_or (Option.bind fm rq_offsetY) 0\<rparr>"

text \<open>Lines 79 to 86: \<^verbatim>\<open>(profile?.face_version || 0) + 1\<close>.\<close>

definition newVersion :: "state \<Rightarrow> string \<Rightarrow> int" where
  "newVersion st user_id = js_or (map_option face_version (profiles st user_id)) 0 + 1"

definition processedPath :: "string \<Rightarrow> int \<Rightarrow> string" where
  "processedPath user_id v = ''faces/'' @ user_id @ ''/'' @ string_of_int v @ ''.webp''"

text \<open>
  The body of the \<^verbatim>\<open>try\<close> block (lines 31 to 153): \<open>Inl\<close> is the message of a thrown
  \<^verbatim>\<open>Error\<close>, \<open>Inr\<close> a returned response. The UPDATE of the profile (lines 117 to 127)
  is rejected by the store as a whole when the new version does not fit its column; the
  handler does not look at what the UPDATE returns and goes on.
\<close>

definition process_face_try ::
  "proc_env \<Rightarrow> state \<Rightarrow> process_face_request \<Rightarrow> (string + response) \<times> state" where
  "process_face_try pe st rq =
     (case storage_download (download_fault pe) st (req_raw_path rq) of
        Inl msg \<Rightarrow> (Inl (''Failed to download file: '' @ msg), st)
      | Inr fileData \<Rightarrow>
          let mimeType = blob_type fileData;
              fileSize = int (length (blob_bytes fileData))
          in (case server_admission fileSize mimeType of
                Some (why, err) \<Rightarrow>
                  (Inr (Failure 400 err),
                   update_logs st (req_upload_id rq)
                     (\<lambda>l. l\<lparr>outcome := O_rejected, reason := Some why\<rparr>))
              | None \<Rightarrow>
                  let v = newVersion st (req_user_id rq);
                      path = processedPath (req_user_id rq) v
                  in (case storage_upload (upload_fault pe) st path
                             \<lparr>blob_bytes = blob_bytes fileData, blob_type = ''image/webp''\<rparr>
                             True of
                        Inl msg \<Rightarrow> (Inl (''Failed to upload processed file: '' @ msg), st)
                      | Inr st1 \<Rightarrow>
                          let url = publicUrl pe path;
                              m = normalize_meta (req_face_meta rq);
                              st2 = (if int4_ok v
                                     then update_profile st1 (req_user_id rq)
                                            (\<lambda>p. p\<lparr>face_path := Some path,
                                                    face_url := Some url,
                                                    face_version := v,
                                                    face_state := FS_approved,
                                                    face_meta := m,
                                                    updated_at := server_now pe\<rparr>)
                                     else st1);
                              st3 = update_logs st2 (req_upload_id rq)
                                      (\<lambda>l. l\<lparr>processed_path := Some path,
                                              outcome := O_accepted,
                                              file_size := fileSize,
                                              mime_type := mimeType\<rparr>)
                          in (Inr (Success url v ''approved'' m), st3))))"

text \<open>The \<^verbatim>\<open>catch\<close> (lines 154 to 163) turns a thrown error into a response of status 500.\<close>

definition process_face ::
  "proc_env \<Rightarrow> state \<Rightarrow> process_face_request \<Rightarrow> response \<times> state" where
  "process_face pe st rq =
     (case process_face_try pe st rq of
        (Inl msg, st') \<Rightarrow> (Failure 500 msg, st')
      | (Inr r, st') \<Rightarrow> (r, st'))"

text \<open>The handler given to \<^verbatim>\<open>Deno.serve\<close>: a preflight is answered before anything else.\<close>

definition serve ::
  "proc_env \<Rightarrow> state \<Rightarrow> string \<Rightarrow> process_face_request \<Rightarrow> response \<times> state" where
  "serve pe st method rq =
     (if method = ''OPTIONS'' then (Preflight, st) else process_face pe st rq)"

definition is_success :: "response \<Rightarrow> bool" where
  "is_success r = (case r of Success _ _ _ _ \<Rightarrow> True | _ \<Rightarrow> False)"

text \<open>Calls of the processing function one after the other, each with its own faults.\<close>

fun process_calls :: "state \<Rightarrow> (proc_env \<times> process_face_request) list \<Rightarrow> state" where
  "process_calls st [] = st"
| "process_calls st ((pe, rq) # cs) = process_calls (snd (process_face pe st rq)) cs"

fun all_succeed :: "state \<Rightarrow> (proc_env \<times> process_face_request) list \<Rightarrow> bool" where
  "all_succeed st [] = True"
| "all_succeed st ((pe, rq) # cs) =
     (is_success (fst (process_face pe st rq)) \<and> all_succeed (snd (process_face pe st rq)) cs)"

section \<open>Upload orchestrator\<close>

text \<open>The browser's \<^verbatim>\<open>File\<close>; \<^verbatim>\<open>file.size\<close> is the number of its bytes.\<close>

record upload_file =
  file_name :: string
  file_type :: string
  file_bytes :: "8 word list"

definition file_size_of :: "upload_file \<Rightarrow> int" where
  "file_size_of f = int (length (file_bytes f))"

text \<open>The transform parameters \<^verbatim>\<open>FaceMeta\<close> of the editor: all four are present.\<close>

record FaceMeta =
  fm_scale :: real
  fm_rotation :: real
  fm_offsetX :: real
  fm_offsetY :: real

definition json_face_meta :: "FaceMeta \<Rightarrow> face_meta_req" where
  "json_face_meta m =
     \<lparr>rq_scale = Some (fm_scale m), rq_rotation = Some (fm_rotation m),
      rq_offsetX = Some (fm_offsetX m), rq_offsetY = Some (fm_offsetY m)\<rparr>"

text \<open>
  What \<^verbatim>\<open>uploadFaceImage\<close> takes from outside the stores: the clock, the token of
  \<^verbatim>\<open>crypto.randomUUID()\<close>, the fault of the store at the raw upload, whether
  \<^verbatim>\<open>fetch\<close> fails before the request reaches the function, and the function's own
  environment.
\<close>

record client_env =
  client_now :: int
  random_uuid :: string
  raw_upload_fault :: "string option"
  fetch_fails :: bool
  server_env :: proc_env

datatype upload_result = UploadOk string | UploadError string

text \<open>
  Lines 105 to 151 of ProfileService.ts, steps 1 to 6 of the orchestrator: \<open>Inl\<close> is the
  error returned early, \<open>Inr\<close> the request that goes to the processing function. The
  results of the INSERT of the log row and of the UPDATE of step 6 are not looked at.
\<close>

definition raw_phase ::
  "client_env \<Rightarrow> state \<Rightarrow> string \<Rightarrow> upload_file \<Rightarrow> FaceMeta \<Rightarrow> (string + process_face_request) \<times> state" where
  "raw_phase ce st userId f faceMeta =
     (let (uploadLimit, st1) = checkUploadLimit (client_now ce) st userId
      in if \<not> canUpload uploadLimit
         then (Inl (''Upload limit reached. '' @ string_of_int (remaining uploadLimit)
                      @ '' uploads remaining. Try again in 24 hours.''), st1)
         else case local_admission (file_size_of f) (file_type f) of
                Some err \<Rightarrow> (Inl err, st1)
              | None \<Rightarrow>
                  let uploadId = random_uuid ce;
                      rawPath = ''user-uploads/raw/'' @ userId @ ''/'' @ uploadId @ ''.''
                                  @ split_pop (file_name f)
                  in (case storage_upload (raw_upload_fault ce) st1 rawPath
                             \<lparr>blob_bytes = file_bytes f, blob_type = file_type f\<rparr> False of
                       Inl msg \<Rightarrow> (Inl (''Upload failed: '' @ msg), st1)
                     | Inr st2 \<Rightarrow>
                         let st3 = insert_log st2
                                     \<lparr>log_user_id = userId,
                                      upload_id = uploadId,
                                      raw_path = rawPath,
                                      processed_path = None,
                                      outcome = O_pending,
                                      reason = None,
                                      file_size = file_size_of f,
                                      mime_type = file_type f\<rparr>;
                             st4 = update_count_and_state st3 userId
                                     (supabase_rpc ''increment'' 1) FS_pending
                         in (Inr \<lparr>req_user_id = userId,
                                  req_raw_path = rawPath,
                                  req_upload_id = uploadId,
                                  req_face_meta = Some (json_face_meta faceMeta)\<rparr>, st4)))"

text \<open>
  Lines 153 to 178, steps 7 and 8: the call of the function and what is made of its
  answer. A failing \<^verbatim>\<open>fetch\<close> and a body that is not JSON throw, and the \<^verbatim>\<open>catch\<close>
  returns the generic error.
\<close>

definition process_phase ::
  "client_env \<Rightarrow> state \<Rightarrow> process_face_request \<Rightarrow> upload_result \<times> state" where
  "process_phase ce st rq =
     (if fetch_fails ce then (UploadError ''Upload failed. Please try again.'', st)
      else case serve (server_env ce) st ''POST'' rq of
             (Preflight, st') \<Rightarrow> (UploadError ''Upload failed. Please try again.'', st')
           | (Failure code err, st') \<Rightarrow>
               (UploadError (if err = [] then ''Processing failed'' else err), st')
           | (Success url v s m, st') \<Rightarrow> (UploadOk url, st'))"

definition uploadFaceImage ::
  "client_env \<Rightarrow> state \<Rightarrow> string \<Rightarrow> upload_file \<Rightarrow> FaceMeta \<Rightarrow> upload_result \<times> state" where
  "uploadFaceImage ce st userId f faceMeta =
     (case raw_phase ce st userId f faceMeta of
        (Inl err, st') \<Rightarrow> (UploadError err, st')
      | (Inr rq, st') \<Rightarrow> process_phase ce st' rq)"

text \<open>\<^verbatim>\<open>removeFaceImage\<close> (lines 181 to 198).\<close>

definition removeFaceImage :: "int \<Rightarrow> state \<Rightarrow> string \<Rightarrow> bool \<times> state" where
  "removeFaceImage now st userId =
     (True,
      update_profile st userId
        (\<lambda>p. p\<lparr>face_url := None, face_path := None, face_state := FS_none,
                updated_at := now\<rparr>))"

section \<open>Properties of a profile\<close>

text \<open>
  The row that \<^verbatim>\<open>INSERT INTO profiles (user_id)\<close> creates at time \<open>t\<close>: the column
  defaults of the migration (lines 25 to 33).
\<close>

definition default_profile :: "int \<Rightarrow> profile" where
  "default_profile t =
     \<lparr>face_path = None, face_url = None, face_version = 0, face_state = FS_none,
      face_meta = \<lparr>width = None, height = None, scale = 1, rotation = 0,
                   offsetX = 0, offsetY = 0\<rparr>,
      upload_count_today = 0, last_upload_reset = t, updated_at = t\<rparr>"

text \<open>
  The invariant of the spec, for the profile of one user: each of \<^verbatim>\<open>face_path\<close> and
  \<^verbatim>\<open>face_url\<close> is set exactly when the state is approved.
\<close>

definition paths_iff_approved :: "state \<Rightarrow> string \<Rightarrow> bool" where
  "paths_iff_approved st u =
     (case profiles st u of
        None \<Rightarrow> True
      | Some p \<Rightarrow>
          (face_path p \<noteq> None) = (face_state p = FS_approved) \<and>
          (face_url p \<noteq> None) = (face_state p = FS_approved))"

section \<open>Example data\<close>

text \<open>
  A user \<^verbatim>\<open>u1\<close> whose raw upload \<^verbatim>\<open>id1\<close> (three bytes of PNG) is stored and logged
  as pending, and the request that asks for its processing.
\<close>

definition ex_meta :: meta where
  "ex_meta = \<lparr>width = None, height = None, scale = 1, rotation = 0, offsetX = 0, offsetY = 0\<rparr>"

definition ex_profile :: profile where
  "ex_profile =
     \<lparr>face_path = None, face_url = None, face_version = 0, face_state = FS_pending,
      face_meta = ex_meta, upload_count_today = 1, last_upload_reset = 0, updated_at = 0\<rparr>"

definition ex_log :: upload_log where
  "ex_log =
     \<lparr>log_user_id = ''u1'', upload_id = ''id1'', raw_path = ''user-uploads/raw/u1/id1.png'',
      processed_path = None, outcome = O_pending, reason = None, file_size = 3,
      mime_type = ''image/png''\<rparr>"

definition ex_blob :: blob where
  "ex_blob = \<lparr>blob_bytes = [1, 2, 3], blob_type = ''image/png''\<rparr>"

definition ex_state :: state where
  "ex_state =
     \<lparr>profiles = [''u1'' \<mapsto> ex_profile],
      logs = [ex_log],
      storage = [''user-uploads/raw/u1/id1.png'' \<mapsto> ex_blob]\<rparr>"

definition ex_request :: process_face_request where
  "ex_request =
     \<lparr>req_user_id = ''u1'', req_raw_path = ''user-uploads/raw/u1/id1.png'',
      req_upload_id = ''id1'',
      req_face_meta = Some \<lparr>rq_scale = Some 1.5, rq_rotation = Some 10,
                              rq_offsetX = None, rq_offsetY = None\<rparr>\<rparr>"

definition ex_url :: "string \<Rightarrow> string" where
  "ex_url path = ''https://db.example/storage/v1/object/public/user-faces/'' @ path"

definition ex_env :: proc_env where
  "ex_env = \<lparr>publicUrl = ex_url, download_fault = None, upload_fault = None, server_now = 5000\<rparr>"

text \<open>The same function during an outage of the store.\<close>

definition ex_env_outage :: proc_env where
  "ex_env_outage = ex_env\<lparr>download_fault := Some ''outage''\<rparr>"

text \<open>A raw object that is not an image, logged as pending.\<close>

definition ex_state_gif :: state where
  "ex_state_gif =
     ex_state\<lparr>storage := [''user-uploads/raw/u1/id1.png'' \<mapsto> ex_blob\<lparr>blob_type := ''image/gif''\<rparr>]\<rparr>"

text \<open>A request whose transform asks for a scale of zero.\<close>

definition ex_request_zero :: process_face_request where
  "ex_request_zero =
     ex_request\<lparr>req_face_meta := Some \<lparr>rq_scale = Some 0, rq_rotation = Some 0,
                                         rq_offsetX = Some 0, rq_offsetY = Some 0\<rparr>\<rparr>"

text \<open>
  A user \<^verbatim>\<open>u2\<close> with an approved face and an exhausted quota whose window started at
  time 0, and what the editor hands to \<^verbatim>\<open>uploadFaceImage\<close>: a small PNG and a PNG of
  6 MiB.
\<close>

definition ex_approved :: profile where
  "ex_approved =
     \<lparr>face_path = Some ''faces/u2/1.webp'', face_url = Some (ex_url ''faces/u2/1.webp''),
      face_version = 1, face_state = FS_approved,
      face_meta = ex_meta\<lparr>width := Some 512, height := Some 512\<rparr>,
      upload_count_today = 3, last_upload_reset = 0, updated_at = 0\<rparr>"

definition ex_state2 :: state where
  "ex_state2 = \<lparr>profiles = [''u2'' \<mapsto> ex_approved], logs = [], storage = Map.empty\<rparr>"

definition ex_file :: upload_file where
  "ex_file = \<lparr>file_name = ''face.png'', file_type = ''image/png'', file_bytes = [1, 2, 3]\<rparr>"

definition ex_big_file :: upload_file where
  "ex_big_file =
     \<lparr>file_name = ''face.png'', file_type = ''image/png'',
      file_bytes = replicate (6 * 1024 * 1024) 0\<rparr>"

definition ex_face_meta :: FaceMeta where
  "ex_face_meta = \<lparr>fm_scale = 1.5, fm_rotation = 10, fm_offsetX = 0, fm_offsetY = 0\<rparr>"

text \<open>A client 25 hours after time 0, with a working store and function.\<close>

definition ex_client :: client_env where
  "ex_client =
     \<lparr>client_now = 90000000, random_uuid = ''id2'', raw_upload_fault = None,
      fetch_fails = False, server_env = ex_env\<rparr>"

text \<open>The same client when the function cannot download from the store.\<close>

definition ex_client_outage :: client_env where
  "ex_client_outage = ex_client\<lparr>server_env := ex_env_outage\<rparr>"

text \<open>A client one hour after time 0.\<close>

definition ex_client_early :: client_env where
  "ex_client_early = ex_client\<lparr>client_now := 3600000\<rparr>"

text \<open>
  A user \<^verbatim>\<open>u3\<close> with no face and no upload yet; the store of \<^verbatim>\<open>u1\<close> without any
  profile; and the store of \<^verbatim>\<open>u1\<close> with the version counter at the top of its column.
\<close>

definition ex_state3 :: state where
  "ex_state3 =
     \<lparr>profiles = [''u3'' \<mapsto> ex_profile\<lparr>face_state := FS_none, upload_count_today := 0\<rparr>],
      logs = [], storage = Map.empty\<rparr>"

definition ex_state_noprofile :: state where
  "ex_state_noprofile = ex_state\<lparr>profiles := Map.empty\<rparr>"

definition ex_state_max :: state where
  "ex_state_max = ex_state\<lparr>profiles := [''u1'' \<mapsto> ex_profile\<lparr>face_version := 2147483647\<rparr>]\<rparr>"

section \<open>Auxiliary facts\<close>

lemmas ex_defs =
  ex_meta_def ex_profile_def ex_log_def ex_blob_def ex_state_def ex_request_def ex_url_def
  ex_env_def ex_env_outage_def ex_state_gif_def ex_request_zero_def ex_approved_def
  ex_state2_def ex_file_def ex_big_file_def ex_face_meta_def ex_client_def ex_client_outage_def
  ex_client_early_def ex_state3_def ex_state_noprofile_def ex_state_max_def

lemmas op_defs =
  process_face_def process_face_try_def storage_download_def storage_upload_def
  server_admission_def local_admission_def max_file_size_def allowedTypes_def update_logs_def
  update_profile_def insert_log_def newVersion_def processedPath_def js_or_def int4_ok_def
  update_count_and_state_def supabase_rpc_def
  normalize_meta_def string_of_int_def digit_char_def Let_def

text \<open>The comparison in hours is a comparison of the difference in milliseconds.\<close>

lemma hours_ge: "(hoursSinceReset now l \<ge> 24) = (now - l \<ge> 24 * 60 * 60 * 1000)"
  unfolding hoursSinceReset_def by (simp add: le_divide_eq flip: of_int_diff)

lemma update_profile_other: "u' \<noteq> u \<Longrightarrow> profiles (update_profile st u f) u' = profiles st u'"
  by (simp add: update_profile_def split: option.splits)

lemma update_profile_same: "profiles (update_profile st u f) u = map_option f (profiles st u)"
  by (simp add: update_profile_def split: option.splits)

lemma update_profile_logs [simp]: "logs (update_profile st u f) = logs st"
  by (simp add: update_profile_def split: option.splits)

lemma update_profile_storage [simp]: "storage (update_profile st u f) = storage st"
  by (simp add: update_profile_def split: option.splits)

lemma update_logs_profiles [simp]: "profiles (update_logs st i f) = profiles st"
  by (simp add: update_logs_def)

lemma update_logs_storage [simp]: "storage (update_logs st i f) = storage st"
  by (simp add: update_logs_def)

lemma newVersion_Some: "profiles st u = Some p \<Longrightarrow> newVersion st u = face_version p + 1"
  by (simp add: newVersion_def js_or_def)

text \<open>What one call of the processing function does to the profiles.\<close>

lemma process_face_profiles:
  "profiles (snd (process_face pe st rq)) =
     (if is_success (fst (process_face pe st rq)) \<and> int4_ok (newVersion st (req_user_id rq))
      then (case profiles st (req_user_id rq) of
              None \<Rightarrow> profiles st
            | Some p \<Rightarrow> (profiles st)(req_user_id rq \<mapsto>
                p\<lparr>face_path :=
                    Some (processedPath (req_user_id rq) (newVersion st (req_user_id rq))),
                  face_url :=
                    Some (publicUrl pe
                           (processedPath (req_user_id rq) (newVersion st (req_user_id rq)))),
                  face_version := newVersion st (req_user_id rq),
                  face_state := FS_approved,
                  face_meta := normalize_meta (req_face_meta rq),
                  updated_at := server_now pe\<rparr>))
      else profiles st)"
  by (auto simp: process_face_def process_face_try_def is_success_def Let_def
        storage_upload_def update_profile_def
        split: sum.splits option.splits prod.splits if_splits)

lemma process_face_version:
  "process_face pe st rq = (Success url v s m, st') \<Longrightarrow> v = newVersion st (req_user_id rq)"
  by (auto simp: process_face_def process_face_try_def Let_def
        split: sum.splits option.splits prod.splits if_splits)

lemma checkUploadLimit_logs [simp]: "logs (snd (checkUploadLimit now st u)) = logs st"
  by (simp add: checkUploadLimit_def split: option.splits)

lemma checkUploadLimit_storage [simp]: "storage (snd (checkUploadLimit now st u)) = storage st"
  by (simp add: checkUploadLimit_def split: option.splits)

text \<open>
  Steps 1 to 6 leave the profiles as the limiter left them: the UPDATE of step 6 is
  rejected.
\<close>

lemma raw_phase_profiles:
  "profiles (snd (raw_phase ce st u f m)) = profiles (snd (checkUploadLimit (client_now ce) st u))"
  by (auto simp: raw_phase_def case_prod_beta Let_def storage_upload_def insert_log_def
        update_count_and_state_def supabase_rpc_def
        split: option.splits sum.splits)

lemma raw_phase_rejects:
  "canUpload (fst (checkUploadLimit (client_now ce) st u)) \<Longrightarrow>
   local_admission (file_size_of f) (file_type f) = Some err \<Longrightarrow>
   raw_phase ce st u f m = (Inl err, snd (checkUploadLimit (client_now ce) st u))"
  by (simp add: raw_phase_def case_prod_beta)

lemmas run_defs =
  process_face_def process_face_try_def storage_download_def storage_upload_def
  server_admission_def max_file_size_def allowedTypes_def update_logs_def
  update_profile_def newVersion_def js_or_def int4_ok_def Let_def

section \<open>The processing function when the download fails\<close>

text \<open>
  C1, as the code has it. A failed download throws, the \<^verbatim>\<open>catch\<close> answers with status
  500 and the message \<^verbatim>\<open>Failed to download file: ...\<close>, and nothing is written: the
  profiles (so every \<^verbatim>\<open>face_state\<close>), the upload log and the bucket are what they were.
  The log row of the upload is not marked rejected; it stays as it was.
\<close>

theorem download_failure_changes_nothing:
  assumes "storage_download (download_fault pe) st (req_raw_path rq) = Inl msg"
  shows "process_face pe st rq = (Failure 500 (''Failed to download file: '' @ msg), st)
         \<and> profiles (snd (process_face pe st rq)) = profiles st
         \<and> logs (snd (process_face pe st rq)) = logs st"
  using assms by (simp add: process_face_def process_face_try_def)

theorem download_failure_changes_nothing_witness:
  "storage_download (download_fault ex_env_outage) ex_state (req_raw_path ex_request)
     = Inl ''outage''
   \<and> process_face ex_env_outage ex_state ex_request
     = (Failure 500 ''Failed to download file: outage'', ex_state)"
proof -
  have h: "storage_download (download_fault ex_env_outage) ex_state (req_raw_path ex_request)
             = Inl ''outage''"
    by (simp add: storage_download_def ex_env_outage_def ex_env_def)
  from download_failure_changes_nothing [OF h] h show ?thesis by simp
qed

text \<open>
  C1 as the spec states it fails: during an outage the pending log row of the upload is
  still pending afterwards, with no reason.
\<close>

theorem download_failure_log_counterexample:
  "fst (process_face ex_env_outage ex_state ex_request)
     = Failure 500 ''Failed to download file: outage''
   \<and> logs (snd (process_face ex_env_outage ex_state ex_request)) = [ex_log]
   \<and> upload_id ex_log = req_upload_id ex_request
   \<and> outcome ex_log = O_pending
   \<and> reason ex_log = None"
  by (simp add: ex_defs op_defs)

section \<open>Admission\<close>

text \<open>
  C5. The checks of the orchestrator and those of the processing function both reject
  exactly when the size is above 5 MiB or the type is none of the four allowed ones, and
  a file above 5 MiB is rejected with the size reason whatever its type. The orchestrator
  applies them once the limiter has allowed the upload: steps 1 to 6 end with the size
  error, else with the type error, else go on to store the raw file, and
  \<^verbatim>\<open>uploadFaceImage\<close> returns the error of the rule that failed. The processing
  function applies them to the object it has downloaded: it answers 400 with the size
  error, else 400 with the type error, else goes on to write the processed object.
\<close>

theorem admission_rejects_iff:
  "(local_admission fileSize mimeType \<noteq> None) =
     (fileSize > 5 * 1024 * 1024 \<or>
      mimeType \<notin> {''image/jpeg'', ''image/jpg'', ''image/png'', ''image/webp''})
   \<and> (server_admission fileSize mimeType \<noteq> None) =
     (fileSize > 5 * 1024 * 1024 \<or>
      mimeType \<notin> {''image/jpeg'', ''image/jpg'', ''image/png'', ''image/webp''})
   \<and> (fileSize > 5 * 1024 * 1024 \<longrightarrow>
        local_admission fileSize mimeType = Some ''File size exceeds 5MB limit'' \<and>
        server_admission fileSize mimeType =
          Some (''File size exceeds 5MB limit'', ''File size exceeds 5MB limit''))
   \<and> (canUpload (fst (checkUploadLimit (client_now ce) st u)) \<longrightarrow>
        fst (raw_phase ce st u f m) =
          (if file_size_of f > 5 * 1024 * 1024 then Inl ''File size exceeds 5MB limit''
           else if file_type f \<notin> {''image/jpeg'', ''image/jpg'', ''image/png'', ''image/webp''}
           then Inl ''Invalid file type. Only JPG, PNG, and WebP allowed.''
           else case storage_upload (raw_upload_fault ce)
                       (snd (checkUploadLimit (client_now ce) st u))
                       (''user-uploads/raw/'' @ u @ ''/'' @ random_uuid ce @ ''.''
                          @ split_pop (file_name f))
                       \<lparr>blob_bytes = file_bytes f, blob_type = file_type f\<rparr> False of
                  Inl msg \<Rightarrow> Inl (''Upload failed: '' @ msg)
                | Inr st2 \<Rightarrow>
                    Inr \<lparr>req_user_id = u,
                         req_raw_path = ''user-uploads/raw/'' @ u @ ''/'' @ random_uuid ce @ ''.''
                                          @ split_pop (file_name f),
                         req_upload_id = random_uuid ce,
                         req_face_meta = Some (json_face_meta m)\<rparr>))
   \<and> (canUpload (fst (checkUploadLimit (client_now ce) st u)) \<and>
       (file_size_of f > 5 * 1024 * 1024 \<or>
        file_type f \<notin> {''image/jpeg'', ''image/jpg'', ''image/png'', ''image/webp''}) \<longrightarrow>
        fst (uploadFaceImage ce st u f m) =
          UploadError (if file_size_of f > 5 * 1024 * 1024
                       then ''File size exceeds 5MB limit''
                       else ''Invalid file type. Only JPG, PNG, and WebP allowed.''))
   \<and> (storage_download (download_fault pe) st (req_raw_path rq) = Inr b \<longrightarrow>
        fst (process_face pe st rq) =
          (if int (length (blob_bytes b)) > 5 * 1024 * 1024
           then Failure 400 ''File size exceeds 5MB limit''
           else if blob_type b \<notin> {''image/jpeg'', ''image/jpg'', ''image/png'', ''image/webp''}
           then Failure 400 ''Invalid file type''
           else case upload_fault pe of
                  Some msg \<Rightarrow> Failure 500 (''Failed to upload processed file: '' @ msg)
                | None \<Rightarrow>
                    Success
                      (publicUrl pe
                         (processedPath (req_user_id rq) (newVersion st (req_user_id rq))))
                      (newVersion st (req_user_id rq)) ''approved''
                      (normalize_meta (req_face_meta rq))))"
proof -
  have pred: "(local_admission fileSize mimeType \<noteq> None) =
     (fileSize > 5 * 1024 * 1024 \<or>
      mimeType \<notin> {''image/jpeg'', ''image/jpg'', ''image/png'', ''image/webp''})
   \<and> (server_admission fileSize mimeType \<noteq> None) =
     (fileSize > 5 * 1024 * 1024 \<or>
      mimeType \<notin> {''image/jpeg'', ''image/jpg'', ''image/png'', ''image/webp''})
   \<and> (fileSize > 5 * 1024 * 1024 \<longrightarrow>
        local_admission fileSize mimeType = Some ''File size exceeds 5MB limit'' \<and>
        server_admission fileSize mimeType =
          Some (''File size exceeds 5MB limit'', ''File size exceeds 5MB limit''))"
    by (simp add: local_admission_def server_admission_def max_file_size_def allowedTypes_def)
  have raw: "fst (raw_phase ce st u f m) =
          (if file_size_of f > 5 * 1024 * 1024 then Inl ''File size exceeds 5MB limit''
           else if file_type f \<notin> {''image/jpeg'', ''image/jpg'', ''image/png'', ''image/webp''}
           then Inl ''Invalid file type. Only JPG, PNG, and WebP allowed.''
           else case storage_upload (raw_upload_fault ce)
                       (snd (checkUploadLimit (client_now ce) st u))
                       (''user-uploads/raw/'' @ u @ ''/'' @ random_uuid ce @ ''.''
                          @ split_pop (file_name f))
                       \<lparr>blob_bytes = file_bytes f, blob_type = file_type f\<rparr> False of
                  Inl msg \<Rightarrow> Inl (''Upload failed: '' @ msg)
                | Inr st2 \<Rightarrow>
                    Inr \<lparr>req_user_id = u,
                         req_raw_path = ''user-uploads/raw/'' @ u @ ''/'' @ random_uuid ce @ ''.''
                                          @ split_pop (file_name f),
                         req_upload_id = random_uuid ce,
                         req_face_meta = Some (json_face_meta m)\<rparr>)"
    if "canUpload (fst (checkUploadLimit (client_now ce) st u))"
    using that
    by (simp add: raw_phase_def case_prod_beta Let_def local_admission_def max_file_size_def
          allowedTypes_def split: sum.splits)
  have up: "fst (uploadFaceImage ce st u f m) =
          UploadError (if file_size_of f > 5 * 1024 * 1024
                       then ''File size exceeds 5MB limit''
                       else ''Invalid file type. Only JPG, PNG, and WebP allowed.'')"
    if "canUpload (fst (checkUploadLimit (client_now ce) st u))"
      and "file_size_of f > 5 * 1024 * 1024 \<or>
        file_type f \<notin> {''image/jpeg'', ''image/jpg'', ''image/png'', ''image/webp''}"
  proof -
    from that have "local_admission (file_size_of f) (file_type f) =
        Some (if file_size_of f > 5 * 1024 * 1024
                       then ''File size exceeds 5MB limit''
                       else ''Invalid file type. Only JPG, PNG, and WebP allowed.'')"
      by (auto simp: local_admission_def max_file_size_def allowedTypes_def)
    with that(1) show ?thesis
      by (simp add: uploadFaceImage_def raw_phase_rejects)
  qed
  have srv: "fst (process_face pe st rq) =
          (if int (length (blob_bytes b)) > 5 * 1024 * 1024
           then Failure 400 ''File size exceeds 5MB limit''
           else if blob_type b \<notin> {''image/jpeg'', ''image/jpg'', ''image/png'', ''image/webp''}
           then Failure 400 ''Invalid file type''
           else case upload_fault pe of
                  Some msg \<Rightarrow> Failure 500 (''Failed to upload processed file: '' @ msg)
                | None \<Rightarrow>
                    Success
                      (publicUrl pe
                         (processedPath (req_user_id rq) (newVersion st (req_user_id rq))))
                      (newVersion st (req_user_id rq)) ''approved''
                      (normalize_meta (req_face_meta rq)))"
    if "storage_download (download_fault pe) st (req_raw_path rq) = Inr b"
    using that
    by (simp add: process_face_def process_face_try_def server_admission_def max_file_size_def
          allowedTypes_def storage_upload_def Let_def split: option.splits)
  from pred raw up srv show ?thesis by blast
qed

theorem admission_rejects_iff_witness:
  "(6291456::int) > 5 * 1024 * 1024
   \<and> ''text/plain'' \<notin> {''image/jpeg'', ''image/jpg'', ''image/png'', ''image/webp''}
   \<and> local_admission 6291456 ''text/plain'' = Some ''File size exceeds 5MB limit''
   \<and> server_admission 6291456 ''text/plain''
       = Some (''File size exceeds 5MB limit'', ''File size exceeds 5MB limit'')
   \<and> local_admission 3 ''text/plain'' \<noteq> None
   \<and> server_admission 3 ''text/plain'' \<noteq> None
   \<and> local_admission 3 ''image/png'' = None
   \<and> server_admission 3 ''image/png'' = None
   \<and> canUpload (fst (checkUploadLimit (client_now ex_client_early) ex_state3 ''u3''))
   \<and> fst (raw_phase ex_client_early ex_state3 ''u3'' ex_big_file ex_face_meta)
       = Inl ''File size exceeds 5MB limit''
   \<and> fst (uploadFaceImage ex_client_early ex_state3 ''u3'' ex_big_file ex_face_meta)
       = UploadError ''File size exceeds 5MB limit''
   \<and> fst (raw_phase ex_client_early ex_state3 ''u3'' ex_file ex_face_meta)
       = Inr \<lparr>req_user_id = ''u3'', req_raw_path = ''user-uploads/raw/u3/id2.png'',
              req_upload_id = ''id2'', req_face_meta = Some (json_face_meta ex_face_meta)\<rparr>
   \<and> storage_download (download_fault ex_env) ex_state_gif (req_raw_path ex_request)
       = Inr (ex_blob\<lparr>blob_type := ''image/gif''\<rparr>)
   \<and> fst (process_face ex_env ex_state_gif ex_request) = Failure 400 ''Invalid file type''
   \<and> storage_download (download_fault ex_env) ex_state (req_raw_path ex_request) = Inr ex_blob
   \<and> is_success (fst (process_face ex_env ex_state ex_request))"
proof -
  have a: "canUpload (fst (checkUploadLimit (client_now ex_client_early) ex_state3 ''u3''))"
    by (simp add: checkUploadLimit_def hours_ge ex_defs)
  have b: "file_size_of ex_big_file = 6291456" "file_size_of ex_file = 3"
    "file_type ex_file = ''image/png''" "file_name ex_file = ''face.png''"
    "file_bytes ex_file = [1, 2, 3]"
    by (simp_all add: file_size_of_def ex_big_file_def ex_file_def)
  have c: "snd (checkUploadLimit (client_now ex_client_early) ex_state3 ''u3'') = ex_state3"
    by (simp add: checkUploadLimit_def hours_ge ex_defs)
  have d: "raw_upload_fault ex_client_early = None" "random_uuid ex_client_early = ''id2''"
    "storage ex_state3 = Map.empty"
    by (simp_all add: ex_client_early_def ex_client_def ex_state3_def)
  have g: "storage_download (download_fault ex_env) ex_state_gif (req_raw_path ex_request)
       = Inr (ex_blob\<lparr>blob_type := ''image/gif''\<rparr>)"
    and h: "storage_download (download_fault ex_env) ex_state (req_raw_path ex_request)
       = Inr ex_blob"
    by (simp_all add: storage_download_def ex_defs)
  have k: "blob_bytes ex_blob = [1, 2, 3]" "blob_type ex_blob = ''image/png''"
    "upload_fault ex_env = None"
    by (simp_all add: ex_blob_def ex_env_def)
  have r1: "local_admission 6291456 ''text/plain'' = Some ''File size exceeds 5MB limit''
      \<and> server_admission 6291456 ''text/plain''
           = Some (''File size exceeds 5MB limit'', ''File size exceeds 5MB limit'')
      \<and> fst (raw_phase ex_client_early ex_state3 ''u3'' ex_big_file ex_face_meta)
           = Inl ''File size exceeds 5MB limit''
      \<and> fst (uploadFaceImage ex_client_early ex_state3 ''u3'' ex_big_file ex_face_meta)
           = UploadError ''File size exceeds 5MB limit''"
    using a b(1)
      admission_rejects_iff [where fileSize = 6291456 and mimeType = "''text/plain''"
        and ce = ex_client_early and st = ex_state3 and u = "''u3''" and f = ex_big_file
        and m = ex_face_meta and pe = ex_env and rq = ex_request and b = ex_blob]
    by simp
  have r2: "local_admission 3 ''text/plain'' \<noteq> None
      \<and> server_admission 3 ''text/plain'' \<noteq> None
      \<and> fst (raw_phase ex_client_early ex_state3 ''u3'' ex_file ex_face_meta)
           = Inr \<lparr>req_user_id = ''u3'', req_raw_path = ''user-uploads/raw/u3/id2.png'',
                  req_upload_id = ''id2'', req_face_meta = Some (json_face_meta ex_face_meta)\<rparr>"
    using a b c d
      admission_rejects_iff [where fileSize = 3 and mimeType = "''text/plain''"
        and ce = ex_client_early and st = ex_state3 and u = "''u3''" and f = ex_file
        and m = ex_face_meta and pe = ex_env and rq = ex_request and b = ex_blob]
    by (simp add: split_pop_def storage_upload_def del: not_None_eq)
  have r3: "local_admission 3 ''image/png'' = None
      \<and> server_admission 3 ''image/png'' = None
      \<and> fst (process_face ex_env ex_state_gif ex_request) = Failure 400 ''Invalid file type''"
    using g k
      admission_rejects_iff [where fileSize = 3 and mimeType = "''image/png''"
        and ce = ex_client_early and st = ex_state_gif and u = "''u3''" and f = ex_file
        and m = ex_face_meta and pe = ex_env and rq = ex_request
        and b = "ex_blob\<lparr>blob_type := ''image/gif''\<rparr>"]
    by (simp del: not_None_eq)
  have r4: "is_success (fst (process_face ex_env ex_state ex_request))"
    using h k
      admission_rejects_iff [where fileSize = 3 and mimeType = "''image/png''"
        and ce = ex_client_early and st = ex_state and u = "''u3''" and f = ex_file
        and m = ex_face_meta and pe = ex_env and rq = ex_request and b = ex_blob]
    by (simp add: is_success_def del: not_None_eq)
  from a g h r1 r2 r3 r4 show ?thesis by simp
qed

section \<open>Rate limiter\<close>

text \<open>
  C4. Without a profile the limiter allows the upload with 3 remaining and writes
  nothing; once 24 hours have passed since \<^verbatim>\<open>last_upload_reset\<close> it stores a counter of
  0 and the current time and allows with 3 remaining; before that it reports
  \<^verbatim>\<open>upload_count_today < 3\<close> and \<^verbatim>\<open>max(0, 3 - upload_count_today)\<close> and leaves the state
  as it is.
\<close>

theorem checkUploadLimit_cases:
  "(profiles st u = None \<longrightarrow>
      checkUploadLimit now st u = (\<lparr>canUpload = True, remaining = 3\<rparr>, st))
   \<and> (profiles st u = Some p \<and> now - last_upload_reset p \<ge> 24 * 60 * 60 * 1000 \<longrightarrow>
      checkUploadLimit now st u =
        (\<lparr>canUpload = True, remaining = 3\<rparr>,
         st\<lparr>profiles :=
              (profiles st)(u \<mapsto> p\<lparr>upload_count_today := 0, last_upload_reset := now\<rparr>)\<rparr>))
   \<and> (profiles st u = Some p \<and> now - last_upload_reset p < 24 * 60 * 60 * 1000 \<longrightarrow>
      checkUploadLimit now st u =
        (\<lparr>canUpload = upload_count_today p < 3,
          remaining = max 0 (3 - upload_count_today p)\<rparr>, st))"
  by (auto simp: checkUploadLimit_def hours_ge update_profile_def)

theorem checkUploadLimit_cases_witness:
  "profiles ex_state2 ''u7'' = None
   \<and> checkUploadLimit 90000000 ex_state2 ''u7''
       = (\<lparr>canUpload = True, remaining = 3\<rparr>, ex_state2)
   \<and> profiles ex_state2 ''u2'' = Some ex_approved
   \<and> upload_count_today ex_approved = 3
   \<and> 90000000 - last_upload_reset ex_approved \<ge> 24 * 60 * 60 * 1000
   \<and> checkUploadLimit 90000000 ex_state2 ''u2''
       = (\<lparr>canUpload = True, remaining = 3\<rparr>,
          ex_state2\<lparr>profiles :=
            (profiles ex_state2)(''u2'' \<mapsto>
               ex_approved\<lparr>upload_count_today := 0, last_upload_reset := 90000000\<rparr>)\<rparr>)
   \<and> 3600000 - last_upload_reset ex_approved < 24 * 60 * 60 * 1000
   \<and> checkUploadLimit 3600000 ex_state2 ''u2''
       = (\<lparr>canUpload = False, remaining = 0\<rparr>, ex_state2)"
proof -
  have a: "profiles ex_state2 ''u7'' = None"
    and b: "profiles ex_state2 ''u2'' = Some ex_approved"
    and c: "upload_count_today ex_approved = 3" "last_upload_reset ex_approved = 0"
    by (simp_all add: ex_state2_def ex_approved_def)
  from a b c
    checkUploadLimit_cases [where st = ex_state2 and u = "''u7''" and now = 90000000]
    checkUploadLimit_cases [where st = ex_state2 and u = "''u2''" and now = 90000000
      and p = ex_approved]
    checkUploadLimit_cases [where st = ex_state2 and u = "''u2''" and now = 3600000
      and p = ex_approved]
  show ?thesis by simp
qed

section \<open>The processing function when re-validation fails\<close>

text \<open>
  C6. When the downloaded object is above 5 MiB or of a type that is not allowed, the
  function answers with status 400 and an error, every log row of the upload gets the
  outcome rejected and the reason of the rule that failed, and neither the bucket nor
  any profile changes.
\<close>

theorem revalidation_failure:
  assumes "storage_download (download_fault pe) st (req_raw_path rq) = Inr b"
    and "int (length (blob_bytes b)) > 5 * 1024 * 1024 \<or> blob_type b \<notin> set allowedTypes"
  shows "process_face pe st rq =
           (Failure 400 (if int (length (blob_bytes b)) > 5 * 1024 * 1024
                         then ''File size exceeds 5MB limit'' else ''Invalid file type''),
            st\<lparr>logs := map (\<lambda>l. if upload_id l = req_upload_id rq
                                 then l\<lparr>outcome := O_rejected,
                                        reason := Some
                                          (if int (length (blob_bytes b)) > 5 * 1024 * 1024
                                           then ''File size exceeds 5MB limit''
                                           else ''Invalid file type. Only JPG, PNG, and WebP allowed.'')\<rparr>
                                 else l) (logs st)\<rparr>)
         \<and> storage (snd (process_face pe st rq)) = storage st
         \<and> profiles (snd (process_face pe st rq)) = profiles st"
  using assms
  by (auto simp: process_face_def process_face_try_def server_admission_def max_file_size_def
        update_logs_def Let_def)

theorem revalidation_failure_witness:
  "storage_download (download_fault ex_env) ex_state_gif (req_raw_path ex_request)
     = Inr (ex_blob\<lparr>blob_type := ''image/gif''\<rparr>)
   \<and> blob_type (ex_blob\<lparr>blob_type := ''image/gif''\<rparr>) \<notin> set allowedTypes
   \<and> process_face ex_env ex_state_gif ex_request =
       (Failure 400 ''Invalid file type'',
        ex_state_gif\<lparr>logs :=
          [ex_log\<lparr>outcome := O_rejected,
                  reason := Some ''Invalid file type. Only JPG, PNG, and WebP allowed.''\<rparr>]\<rparr>)"
proof -
  have h: "storage_download (download_fault ex_env) ex_state_gif (req_raw_path ex_request)
             = Inr (ex_blob\<lparr>blob_type := ''image/gif''\<rparr>)"
    by (simp add: storage_download_def ex_defs)
  have t: "blob_type (ex_blob\<lparr>blob_type := ''image/gif''\<rparr>) \<notin> set allowedTypes"
    by (simp add: allowedTypes_def)
  from t have g: "int (length (blob_bytes (ex_blob\<lparr>blob_type := ''image/gif''\<rparr>)))
                    > 5 * 1024 * 1024
                  \<or> blob_type (ex_blob\<lparr>blob_type := ''image/gif''\<rparr>) \<notin> set allowedTypes"
    by simp
  from revalidation_failure [OF h g] h t show ?thesis
    by (simp add: ex_defs)
qed

section \<open>The version counter\<close>

lemma process_calls_version:
  "all_succeed st cs \<Longrightarrow> profiles st u = Some p \<Longrightarrow> int4_ok (face_version p) \<Longrightarrow>
   face_version p + int (length (filter (\<lambda>c. req_user_id (snd c) = u) cs)) \<le> 2147483647 \<Longrightarrow>
   \<exists>p'. profiles (process_calls st cs) u = Some p' \<and>
        face_version p' =
          face_version p + int (length (filter (\<lambda>c. req_user_id (snd c) = u) cs))"
proof (induction cs arbitrary: st p)
  case Nil
  then show ?case by simp
next
  case (Cons c cs)
  obtain pe rq where c: "c = (pe, rq)" by (cases c)
  let ?st = "snd (process_face pe st rq)"
  let ?n = "int (length (filter (\<lambda>c. req_user_id (snd c) = u) cs))"
  from Cons.prems c have ok: "is_success (fst (process_face pe st rq))"
    and rest: "all_succeed ?st cs"
    by simp_all
  show ?case
  proof (cases "req_user_id rq = u")
    case True
    with Cons.prems(4) c have b: "face_version p + 1 + ?n \<le> 2147483647" by simp
    with Cons.prems(3) have fit: "int4_ok (face_version p + 1)"
      by (simp add: int4_ok_def)
    with ok Cons.prems(2) True obtain q where q: "profiles ?st u = Some q"
      and v: "face_version q = face_version p + 1"
      by (auto simp: process_face_profiles newVersion_Some)
    from fit v have fq: "int4_ok (face_version q)" by simp
    from b v have bq: "face_version q + ?n \<le> 2147483647" by simp
    from Cons.IH [OF rest q fq bq] v c True show ?thesis by auto
  next
    case False
    with Cons.prems(2) have q: "profiles ?st u = Some p"
      by (auto simp: process_face_profiles split: option.splits)
    from Cons.prems(4) c False have bq: "face_version p + ?n \<le> 2147483647" by simp
    from Cons.IH [OF rest q Cons.prems(3) bq] c False show ?thesis by auto
  qed
qed

text \<open>
  C7, as the code has it. For a user who has a profile, after calls of the processing
  function made one after the other that all succeed, \<^verbatim>\<open>face_version\<close> is its value
  before the first call plus the number of those calls that were for this user, as long
  as that sum stays within the 32-bit column. No call, successful or not, lowers the
  \<^verbatim>\<open>face_version\<close> of any profile. A successful call for a profile whose version is
  below the top of the column returns and stores the previous value plus 1, so two such
  successes in a row never end at the same version. A successful call for a user without
  a profile answers version 1 and stores no version.
\<close>

theorem face_version_counts_successes:
  "(all_succeed st cs \<and> profiles st u = Some p \<and> int4_ok (face_version p) \<and>
    face_version p + int (length (filter (\<lambda>c. req_user_id (snd c) = u) cs)) \<le> 2147483647 \<longrightarrow>
      (\<exists>p'. profiles (process_calls st cs) u = Some p' \<and>
            face_version p' =
              face_version p + int (length (filter (\<lambda>c. req_user_id (snd c) = u) cs))))
   \<and> (profiles st u = Some p \<longrightarrow>
      (\<exists>p'. profiles (snd (process_face pe st rq)) u = Some p' \<and>
            face_version p \<le> face_version p'))
   \<and> (profiles st (req_user_id rq) = Some p \<and> int4_ok (face_version p) \<and>
       face_version p < 2147483647 \<and>
       process_face pe st rq = (Success url v s m, st') \<longrightarrow>
      v = face_version p + 1 \<and>
      map_option face_version (profiles st' (req_user_id rq)) = Some v)
   \<and> (profiles st (req_user_id rq) = None \<and>
       process_face pe st rq = (Success url v s m, st') \<longrightarrow>
      v = 1 \<and> profiles st' = profiles st)"
proof (intro conjI impI)
  assume "all_succeed st cs \<and> profiles st u = Some p \<and> int4_ok (face_version p) \<and>
    face_version p + int (length (filter (\<lambda>c. req_user_id (snd c) = u) cs)) \<le> 2147483647"
  then show "\<exists>p'. profiles (process_calls st cs) u = Some p' \<and>
            face_version p' =
              face_version p + int (length (filter (\<lambda>c. req_user_id (snd c) = u) cs))"
    using process_calls_version by blast
next
  assume "profiles st u = Some p"
  then show "\<exists>p'. profiles (snd (process_face pe st rq)) u = Some p' \<and>
            face_version p \<le> face_version p'"
    by (auto simp: process_face_profiles newVersion_Some split: option.splits)
next
  assume a: "profiles st (req_user_id rq) = Some p \<and> int4_ok (face_version p) \<and>
       face_version p < 2147483647 \<and>
       process_face pe st rq = (Success url v s m, st')"
  then have "v = newVersion st (req_user_id rq)"
    using process_face_version by blast
  with a show "v = face_version p + 1" by (simp add: newVersion_Some)
next
  assume a: "profiles st (req_user_id rq) = Some p \<and> int4_ok (face_version p) \<and>
       face_version p < 2147483647 \<and>
       process_face pe st rq = (Success url v s m, st')"
  then have v: "v = newVersion st (req_user_id rq)"
    using process_face_version by blast
  from a have fit: "int4_ok (newVersion st (req_user_id rq))"
    by (simp add: newVersion_Some int4_ok_def)
  from process_face_profiles [of pe st rq] a fit
  have "map_option face_version (profiles st' (req_user_id rq)) =
          Some (newVersion st (req_user_id rq))"
    by (simp add: is_success_def)
  with v show "map_option face_version (profiles st' (req_user_id rq)) = Some v"
    by simp
next
  assume a: "profiles st (req_user_id rq) = None \<and>
       process_face pe st rq = (Success url v s m, st')"
  then have "v = newVersion st (req_user_id rq)"
    using process_face_version by blast
  with a show "v = 1" by (simp add: newVersion_def js_or_def)
next
  assume a: "profiles st (req_user_id rq) = None \<and>
       process_face pe st rq = (Success url v s m, st')"
  with process_face_profiles [of pe st rq] show "profiles st' = profiles st"
    by (simp split: if_splits)
qed

theorem face_version_counts_successes_witness:
  "all_succeed ex_state [(ex_env, ex_request), (ex_env, ex_request_zero)]
   \<and> profiles ex_state ''u1'' = Some ex_profile
   \<and> face_version ex_profile = 0
   \<and> map_option face_version
        (profiles (process_calls ex_state [(ex_env, ex_request), (ex_env, ex_request_zero)]) ''u1'')
       = Some 2
   \<and> process_face ex_env ex_state ex_request =
       (Success (ex_url ''faces/u1/1.webp'') 1 ''approved''
          (normalize_meta (req_face_meta ex_request)),
        snd (process_face ex_env ex_state ex_request))
   \<and> map_option face_version (profiles (snd (process_face ex_env ex_state ex_request)) ''u1'')
       = Some 1
   \<and> process_face ex_env ex_state_noprofile ex_request =
       (Success (ex_url ''faces/u1/1.webp'') 1 ''approved''
          (normalize_meta (req_face_meta ex_request)),
        snd (process_face ex_env ex_state_noprofile ex_request))
   \<and> profiles (snd (process_face ex_env ex_state_noprofile ex_request))
       = profiles ex_state_noprofile"
proof -
  have a: "all_succeed ex_state [(ex_env, ex_request), (ex_env, ex_request_zero)]"
    by (simp add: is_success_def ex_defs op_defs)
  have b: "profiles ex_state ''u1'' = Some ex_profile"
    by (simp add: ex_state_def)
  have c: "face_version ex_profile = 0"
    by (simp add: ex_profile_def)
  have d: "length (filter (\<lambda>c. req_user_id (snd c) = ''u1'')
             [(ex_env, ex_request), (ex_env, ex_request_zero)]) = 2"
    by (simp add: ex_request_def ex_request_zero_def)
  have e: "int4_ok (face_version ex_profile)"
    by (simp add: int4_ok_def ex_profile_def)
  have r: "req_user_id ex_request = ''u1''"
    by (simp add: ex_request_def)
  have g: "process_face ex_env ex_state ex_request =
       (Success (ex_url ''faces/u1/1.webp'') 1 ''approved''
          (normalize_meta (req_face_meta ex_request)),
        snd (process_face ex_env ex_state ex_request))"
    by (simp add: ex_defs op_defs)
  have h: "process_face ex_env ex_state_noprofile ex_request =
       (Success (ex_url ''faces/u1/1.webp'') 1 ''approved''
          (normalize_meta (req_face_meta ex_request)),
        snd (process_face ex_env ex_state_noprofile ex_request))"
    by (simp add: ex_defs op_defs)
  have n: "profiles ex_state_noprofile (req_user_id ex_request) = None"
    by (simp add: ex_state_noprofile_def)
  from face_version_counts_successes
         [where st = ex_state and cs = "[(ex_env, ex_request), (ex_env, ex_request_zero)]"
            and u = "''u1''" and p = ex_profile]
       a b c d e
  have first: "map_option face_version
        (profiles (process_calls ex_state [(ex_env, ex_request), (ex_env, ex_request_zero)]) ''u1'')
       = Some 2" by auto
  from face_version_counts_successes
         [where st = ex_state and pe = ex_env and rq = ex_request and p = ex_profile
            and st' = "snd (process_face ex_env ex_state ex_request)"
            and url = "ex_url ''faces/u1/1.webp''" and v = 1 and s = "''approved''"
            and m = "normalize_meta (req_face_meta ex_request)"]
       g b c e r
  have single: "map_option face_version
        (profiles (snd (process_face ex_env ex_state ex_request)) ''u1'') = Some 1"
    by simp
  from face_version_counts_successes
         [where st = ex_state_noprofile and pe = ex_env and rq = ex_request
            and st' = "snd (process_face ex_env ex_state_noprofile ex_request)"
            and url = "ex_url ''faces/u1/1.webp''" and v = 1 and s = "''approved''"
            and m = "normalize_meta (req_face_meta ex_request)"]
       h n
  have second: "profiles (snd (process_face ex_env ex_state_noprofile ex_request))
       = profiles ex_state_noprofile" by simp
  from a b c first g single h second show ?thesis by simp
qed

text \<open>
  C7 as the spec states it fails. For a user without a profile two calls in a row both
  succeed with version 1 and no profile holds a version. For a profile whose version is
  2147483647 a call succeeds with version 2147483648 and the stored version is still
  2147483647.
\<close>

theorem face_version_counterexample:
  "profiles ex_state_noprofile ''u1'' = None
   \<and> fst (process_face ex_env ex_state_noprofile ex_request) =
       Success (ex_url ''faces/u1/1.webp'') 1 ''approved'' (normalize_meta (req_face_meta ex_request))
   \<and> fst (process_face ex_env (snd (process_face ex_env ex_state_noprofile ex_request)) ex_request) =
       Success (ex_url ''faces/u1/1.webp'') 1 ''approved'' (normalize_meta (req_face_meta ex_request))
   \<and> profiles (snd (process_face ex_env (snd (process_face ex_env ex_state_noprofile ex_request))
                       ex_request)) ''u1'' = None
   \<and> map_option face_version (profiles ex_state_max ''u1'') = Some 2147483647
   \<and> fst (process_face ex_env ex_state_max ex_request) =
       Success (ex_url (processedPath ''u1'' 2147483648)) 2147483648 ''approved''
         (normalize_meta (req_face_meta ex_request))
   \<and> map_option face_version (profiles (snd (process_face ex_env ex_state_max ex_request)) ''u1'')
       = Some 2147483647"
  by (simp add: ex_defs run_defs processedPath_def string_of_int_def digit_char_def)

section \<open>Paths and the approved state\<close>

lemma update_keeps_iff:
  assumes "paths_iff_approved st u"
    and "\<And>p. (face_path (g p) \<noteq> None) = (face_state (g p) = FS_approved) \<and>
              (face_url (g p) \<noteq> None) = (face_state (g p) = FS_approved)
           \<or> (face_path (g p) = face_path p \<and> face_url (g p) = face_url p \<and>
               face_state (g p) = face_state p)"
  shows "paths_iff_approved (update_profile st u' g) u"
proof (cases "u' = u")
  case False
  with assms(1) show ?thesis
    by (simp add: paths_iff_approved_def update_profile_other)
next
  case True
  show ?thesis
  proof (cases "profiles st u")
    case None
    with True show ?thesis by (simp add: paths_iff_approved_def update_profile_same)
  next
    case (Some p)
    with assms(1) have "(face_path p \<noteq> None) = (face_state p = FS_approved) \<and>
          (face_url p \<noteq> None) = (face_state p = FS_approved)"
      by (simp add: paths_iff_approved_def)
    with assms(2) [of p] have "(face_path (g p) \<noteq> None) = (face_state (g p) = FS_approved) \<and>
              (face_url (g p) \<noteq> None) = (face_state (g p) = FS_approved)"
      by auto
    with True Some show ?thesis
      by (simp add: paths_iff_approved_def update_profile_same)
  qed
qed

lemma paths_iff_approved_cong:
  "profiles st' = profiles st \<Longrightarrow> paths_iff_approved st' u = paths_iff_approved st u"
  by (simp add: paths_iff_approved_def)

lemma checkUploadLimit_keeps:
  assumes "paths_iff_approved st u"
  shows "paths_iff_approved (snd (checkUploadLimit now st u')) u"
proof -
  have "snd (checkUploadLimit now st u') = st \<or>
        snd (checkUploadLimit now st u') =
          update_profile st u' (\<lambda>q. q\<lparr>upload_count_today := 0, last_upload_reset := now\<rparr>)"
    by (simp add: checkUploadLimit_def split: option.splits)
  then show ?thesis
  proof
    assume "snd (checkUploadLimit now st u') = st"
    with assms show ?thesis by simp
  next
    assume e: "snd (checkUploadLimit now st u') =
          update_profile st u' (\<lambda>q. q\<lparr>upload_count_today := 0, last_upload_reset := now\<rparr>)"
    show ?thesis unfolding e using assms by (rule update_keeps_iff) simp
  qed
qed

lemma raw_phase_keeps:
  "paths_iff_approved st u \<Longrightarrow> paths_iff_approved (snd (raw_phase ce st u' f m)) u"
  using checkUploadLimit_keeps [of st u "client_now ce" u']
    paths_iff_approved_cong [OF raw_phase_profiles, of ce st u' f m u]
  by simp

lemma process_face_keeps:
  "paths_iff_approved st u \<Longrightarrow> paths_iff_approved (snd (process_face pe st rq)) u"
  by (auto simp: paths_iff_approved_def process_face_profiles split: option.splits)

lemma process_phase_keeps:
  "paths_iff_approved st u \<Longrightarrow> paths_iff_approved (snd (process_phase ce st rq)) u"
  using process_face_keeps [of st u "server_env ce" rq]
  by (auto simp: process_phase_def serve_def split: prod.splits response.splits)

lemma uploadFaceImage_keeps:
  "paths_iff_approved st u \<Longrightarrow> paths_iff_approved (snd (uploadFaceImage ce st u' f m)) u"
  using raw_phase_keeps [of st u ce u' f m]
    process_phase_keeps [of "snd (raw_phase ce st u' f m)" u ce]
  by (auto simp: uploadFaceImage_def split: prod.splits sum.splits)

lemma removeFaceImage_keeps:
  "paths_iff_approved st u \<Longrightarrow> paths_iff_approved (snd (removeFaceImage now st u')) u"
  unfolding removeFaceImage_def snd_conv by (rule update_keeps_iff) simp_all

text \<open>
  C2. A profile as the store creates it has no paths and is not approved. Whatever a
  submit, a call of the processing function, a removal or a question to the limiter
  does, for whichever user, a profile whose \<^verbatim>\<open>face_path\<close> and \<^verbatim>\<open>face_url\<close> were each set
  exactly when it was approved is still so afterwards.
\<close>

theorem paths_iff_approved_invariant:
  "paths_iff_approved (st\<lparr>profiles := (profiles st)(u \<mapsto> default_profile t)\<rparr>) u
   \<and> (paths_iff_approved st u \<longrightarrow>
        paths_iff_approved (snd (uploadFaceImage ce st u' f m)) u \<and>
        paths_iff_approved (snd (process_face pe st rq)) u \<and>
        paths_iff_approved (snd (removeFaceImage now st u')) u \<and>
        paths_iff_approved (snd (checkUploadLimit now st u')) u)"
  by (simp add: uploadFaceImage_keeps process_face_keeps removeFaceImage_keeps
        checkUploadLimit_keeps)
     (simp add: paths_iff_approved_def default_profile_def)

theorem paths_iff_approved_invariant_witness:
  "paths_iff_approved ex_state2 ''u2''
   \<and> paths_iff_approved
        (snd (uploadFaceImage ex_client_outage ex_state2 ''u2'' ex_file ex_face_meta)) ''u2''
   \<and> paths_iff_approved (snd (process_face ex_env ex_state2 ex_request)) ''u2''
   \<and> paths_iff_approved (snd (removeFaceImage 7000 ex_state2 ''u2'')) ''u2''
   \<and> paths_iff_approved (snd (checkUploadLimit 7000 ex_state2 ''u2'')) ''u2''"
proof -
  have a: "paths_iff_approved ex_state2 ''u2''"
    by (simp add: paths_iff_approved_def ex_state2_def ex_approved_def)
  from a
    paths_iff_approved_invariant
      [where st = ex_state2 and u = "''u2''" and u' = "''u2''" and ce = ex_client_outage
         and f = ex_file and m = ex_face_meta and pe = ex_env and rq = ex_request
         and now = 7000 and t = 0]
  show ?thesis by simp
qed

section \<open>Step 6 of the orchestrator\<close>

text \<open>
  C3 does not hold of the code. Steps 1 to 6 leave every profile as the limiter left it:
  the UPDATE of step 6 gives \<^verbatim>\<open>upload_count_today\<close> the builder of an un-awaited
  \<^verbatim>\<open>supabase.rpc\<close> call, the store rejects it and the error is not looked at. A user
  with a counter of 0 and no face submits a valid file: the raw file is stored, the log
  row is inserted, the request goes to the processing function, and the counter is still
  0 and the state still none.
\<close>

theorem step6_update_rejected:
  "profiles (snd (raw_phase ce st u f m))
     = profiles (snd (checkUploadLimit (client_now ce) st u))
   \<and> raw_phase ex_client_early ex_state3 ''u3'' ex_file ex_face_meta =
       (Inr \<lparr>req_user_id = ''u3'', req_raw_path = ''user-uploads/raw/u3/id2.png'',
             req_upload_id = ''id2'',
             req_face_meta = Some \<lparr>rq_scale = Some 1.5, rq_rotation = Some 10,
                                    rq_offsetX = Some 0, rq_offsetY = Some 0\<rparr>\<rparr>,
        ex_state3
          \<lparr>logs := [\<lparr>log_user_id = ''u3'', upload_id = ''id2'',
                      raw_path = ''user-uploads/raw/u3/id2.png'', processed_path = None,
                      outcome = O_pending, reason = None, file_size = 3,
                      mime_type = ''image/png''\<rparr>],
            storage := [''user-uploads/raw/u3/id2.png'' \<mapsto>
                          \<lparr>blob_bytes = [1, 2, 3], blob_type = ''image/png''\<rparr>]\<rparr>)
   \<and> map_option upload_count_today (profiles ex_state3 ''u3'') = Some 0
   \<and> map_option face_state (profiles ex_state3 ''u3'') = Some FS_none
   \<and> map_option upload_count_today
        (profiles (snd (raw_phase ex_client_early ex_state3 ''u3'' ex_file ex_face_meta)) ''u3'')
       = Some 0
   \<and> map_option face_state
        (profiles (snd (raw_phase ex_client_early ex_state3 ''u3'' ex_file ex_face_meta)) ''u3'')
       = Some FS_none"
proof -
  have g: "profiles (snd (raw_phase ce st u f m))
     = profiles (snd (checkUploadLimit (client_now ce) st u))"
    by (rule raw_phase_profiles)
  have e: "raw_phase ex_client_early ex_state3 ''u3'' ex_file ex_face_meta =
       (Inr \<lparr>req_user_id = ''u3'', req_raw_path = ''user-uploads/raw/u3/id2.png'',
             req_upload_id = ''id2'',
             req_face_meta = Some \<lparr>rq_scale = Some 1.5, rq_rotation = Some 10,
                                    rq_offsetX = Some 0, rq_offsetY = Some 0\<rparr>\<rparr>,
        ex_state3
          \<lparr>logs := [\<lparr>log_user_id = ''u3'', upload_id = ''id2'',
                      raw_path = ''user-uploads/raw/u3/id2.png'', processed_path = None,
                      outcome = O_pending, reason = None, file_size = 3,
                      mime_type = ''image/png''\<rparr>],
            storage := [''user-uploads/raw/u3/id2.png'' \<mapsto>
                          \<lparr>blob_bytes = [1, 2, 3], blob_type = ''image/png''\<rparr>]\<rparr>)"
    by (simp add: raw_phase_def checkUploadLimit_def hours_ge file_size_of_def
          json_face_meta_def split_pop_def ex_defs op_defs)
  have p: "map_option upload_count_today (profiles ex_state3 ''u3'') = Some 0"
    "map_option face_state (profiles ex_state3 ''u3'') = Some FS_none"
    by (simp_all add: ex_state3_def)
  from g e p show ?thesis by simp
qed

section \<open>Local rejection by the orchestrator\<close>

text \<open>
  C9, as the code has it. When the limiter allows the upload and local admission rejects
  the file, \<^verbatim>\<open>uploadFaceImage\<close> returns the error of the rule that failed (the size
  error for a file above 5 MiB), inserts no log row and stores no object. The state it
  leaves is the one the limiter left: the profile is unchanged unless 24 hours had
  passed since \<^verbatim>\<open>last_upload_reset\<close>, in which case the limiter has stored a counter of 0
  and the current time; no other field changes.
\<close>

theorem local_rejection:
  assumes "canUpload (fst (checkUploadLimit (client_now ce) st u))"
    and "file_size_of f > 5 * 1024 * 1024 \<or> file_type f \<notin> set allowedTypes"
  shows "uploadFaceImage ce st u f m =
           (UploadError (if file_size_of f > 5 * 1024 * 1024
                         then ''File size exceeds 5MB limit''
                         else ''Invalid file type. Only JPG, PNG, and WebP allowed.''),
            snd (checkUploadLimit (client_now ce) st u))
         \<and> logs (snd (uploadFaceImage ce st u f m)) = logs st
         \<and> storage (snd (uploadFaceImage ce st u f m)) = storage st
         \<and> profiles (snd (uploadFaceImage ce st u f m)) =
             (case profiles st u of
                None \<Rightarrow> profiles st
              | Some p \<Rightarrow>
                  if client_now ce - last_upload_reset p \<ge> 24 * 60 * 60 * 1000
                  then (profiles st)(u \<mapsto>
                         p\<lparr>upload_count_today := 0, last_upload_reset := client_now ce\<rparr>)
                  else profiles st)"
proof -
  from assms(2) have "local_admission (file_size_of f) (file_type f)
                        = Some (if file_size_of f > 5 * 1024 * 1024
                         then ''File size exceeds 5MB limit''
                         else ''Invalid file type. Only JPG, PNG, and WebP allowed.'')"
    by (auto simp: local_admission_def max_file_size_def)
  with assms(1) have r: "uploadFaceImage ce st u f m =
           (UploadError (if file_size_of f > 5 * 1024 * 1024
                         then ''File size exceeds 5MB limit''
                         else ''Invalid file type. Only JPG, PNG, and WebP allowed.''),
            snd (checkUploadLimit (client_now ce) st u))"
    by (simp add: uploadFaceImage_def raw_phase_rejects)
  show ?thesis unfolding r
    by (auto simp: checkUploadLimit_def hours_ge update_profile_def split: option.splits)
qed

theorem local_rejection_witness:
  "canUpload (fst (checkUploadLimit (client_now ex_client) ex_state ''u1''))
   \<and> file_size_of ex_big_file > 5 * 1024 * 1024
   \<and> uploadFaceImage ex_client ex_state ''u1'' ex_big_file ex_face_meta =
       (UploadError ''File size exceeds 5MB limit'',
        ex_state\<lparr>profiles := [''u1'' \<mapsto>
          ex_profile\<lparr>upload_count_today := 0, last_upload_reset := 90000000\<rparr>]\<rparr>)
   \<and> canUpload (fst (checkUploadLimit 3600000 ex_state ''u1''))
   \<and> uploadFaceImage (ex_client\<lparr>client_now := 3600000\<rparr>) ex_state ''u1'' ex_big_file
         ex_face_meta =
       (UploadError ''File size exceeds 5MB limit'', ex_state)"
proof -
  have a: "canUpload (fst (checkUploadLimit (client_now ex_client) ex_state ''u1''))"
    by (simp add: checkUploadLimit_def hours_ge ex_defs)
  have b: "file_size_of ex_big_file > 5 * 1024 * 1024"
    by (simp add: file_size_of_def ex_big_file_def)
  then have b': "file_size_of ex_big_file > 5 * 1024 * 1024
                   \<or> file_type ex_big_file \<notin> set allowedTypes" by simp
  have c: "snd (checkUploadLimit (client_now ex_client) ex_state ''u1'') =
             ex_state\<lparr>profiles := [''u1'' \<mapsto>
               ex_profile\<lparr>upload_count_today := 0, last_upload_reset := 90000000\<rparr>]\<rparr>"
    by (simp add: checkUploadLimit_def hours_ge update_profile_def ex_defs)
  have n: "client_now (ex_client\<lparr>client_now := 3600000\<rparr>) = 3600000" by simp
  have d: "canUpload (fst (checkUploadLimit 3600000 ex_state ''u1''))"
    and e: "snd (checkUploadLimit 3600000 ex_state ''u1'') = ex_state"
    by (simp_all add: checkUploadLimit_def hours_ge ex_defs)
  from d n have d': "canUpload (fst (checkUploadLimit
                       (client_now (ex_client\<lparr>client_now := 3600000\<rparr>)) ex_state ''u1''))"
    by simp
  from local_rejection [OF a b', of ex_face_meta] local_rejection [OF d' b', of ex_face_meta]
    a b c d e n
  show ?thesis by simp
qed

text \<open>
  C9 as the spec states it fails: a user whose window has expired submits a file of
  6 MiB; the submit is rejected with the size error, and the profile has a new counter and
  a new \<^verbatim>\<open>last_upload_reset\<close>.
\<close>

theorem local_rejection_reset_counterexample:
  "fst (uploadFaceImage ex_client ex_state2 ''u2'' ex_big_file ex_face_meta)
     = UploadError ''File size exceeds 5MB limit''
   \<and> map_option upload_count_today (profiles ex_state2 ''u2'') = Some 3
   \<and> map_option upload_count_today
        (profiles (snd (uploadFaceImage ex_client ex_state2 ''u2'' ex_big_file ex_face_meta)) ''u2'')
       = Some 0
   \<and> map_option last_upload_reset (profiles ex_state2 ''u2'') = Some 0
   \<and> map_option last_upload_reset
        (profiles (snd (uploadFaceImage ex_client ex_state2 ''u2'' ex_big_file ex_face_meta)) ''u2'')
       = Some 90000000"
  by (simp add: uploadFaceImage_def raw_phase_def checkUploadLimit_def hours_ge
        file_size_of_def ex_defs op_defs)

section \<open>The normalised transform\<close>

text \<open>
  C8, as the code has it. The meta of a successful call has width and height 512; a
  transform field that is missing takes its default (scale 1, the others 0); a rotation
  or an offset that is present is kept; a scale that is present is kept unless it is 0,
  which is replaced by the default 1. This meta is returned. It is stored in the profile
  of the user when there is one and its version is below the top of the 32-bit column;
  for a user without a profile the profiles stay as they were.
\<close>

theorem meta_normalized:
  assumes "process_face pe st rq = (Success url v s m, st')"
  shows "width m = Some 512 \<and> height m = Some 512
         \<and> scale m = (case Option.bind (req_face_meta rq) rq_scale of
                        None \<Rightarrow> 1 | Some x \<Rightarrow> if x = 0 then 1 else x)
         \<and> rotation m = (case Option.bind (req_face_meta rq) rq_rotation of
                           None \<Rightarrow> 0 | Some x \<Rightarrow> x)
         \<and> offsetX m = (case Option.bind (req_face_meta rq) rq_offsetX of
                          None \<Rightarrow> 0 | Some x \<Rightarrow> x)
         \<and> offsetY m = (case Option.bind (req_face_meta rq) rq_offsetY of
                          None \<Rightarrow> 0 | Some x \<Rightarrow> x)
         \<and> (profiles st (req_user_id rq) = Some p \<and> int4_ok (face_version p) \<and>
             face_version p < 2147483647 \<longrightarrow>
               map_option face_meta (profiles st' (req_user_id rq)) = Some m)
         \<and> (profiles st (req_user_id rq) = None \<longrightarrow> profiles st' = profiles st)"
proof -
  from assms have m: "m = normalize_meta (req_face_meta rq)"
    by (auto simp: process_face_def process_face_try_def Let_def
          split: sum.splits option.splits prod.splits if_splits)
  have stored: "map_option face_meta (profiles st' (req_user_id rq)) = Some m"
    if "profiles st (req_user_id rq) = Some p" "int4_ok (face_version p)"
       "face_version p < 2147483647"
  proof -
    from that have "int4_ok (newVersion st (req_user_id rq))"
      by (simp add: newVersion_Some int4_ok_def)
    with process_face_profiles [of pe st rq] assms that(1) m show ?thesis
      by (simp add: is_success_def)
  qed
  have none: "profiles st' = profiles st" if "profiles st (req_user_id rq) = None"
    using process_face_profiles [of pe st rq] assms that by (simp split: if_splits)
  from m stored none show ?thesis
    by (simp add: normalize_meta_def js_or_def split: option.splits)
qed

theorem meta_normalized_witness:
  "process_face ex_env ex_state ex_request =
     (Success (ex_url ''faces/u1/1.webp'') 1 ''approved''
        \<lparr>width = Some 512, height = Some 512, scale = 1.5, rotation = 10,
          offsetX = 0, offsetY = 0\<rparr>,
      snd (process_face ex_env ex_state ex_request))
   \<and> profiles ex_state ''u1'' = Some ex_profile
   \<and> face_version ex_profile = 0
   \<and> map_option face_meta (profiles (snd (process_face ex_env ex_state ex_request)) ''u1'')
       = Some \<lparr>width = Some 512, height = Some 512, scale = 1.5, rotation = 10,
               offsetX = 0, offsetY = 0\<rparr>
   \<and> profiles ex_state_noprofile ''u1'' = None
   \<and> process_face ex_env ex_state_noprofile ex_request =
     (Success (ex_url ''faces/u1/1.webp'') 1 ''approved''
        \<lparr>width = Some 512, height = Some 512, scale = 1.5, rotation = 10,
          offsetX = 0, offsetY = 0\<rparr>,
      snd (process_face ex_env ex_state_noprofile ex_request))
   \<and> profiles (snd (process_face ex_env ex_state_noprofile ex_request))
       = profiles ex_state_noprofile"
proof -
  have h: "process_face ex_env ex_state ex_request =
     (Success (ex_url ''faces/u1/1.webp'') 1 ''approved''
        \<lparr>width = Some 512, height = Some 512, scale = 1.5, rotation = 10,
          offsetX = 0, offsetY = 0\<rparr>,
      snd (process_face ex_env ex_state ex_request))"
    by (simp add: ex_defs op_defs)
  have k: "process_face ex_env ex_state_noprofile ex_request =
     (Success (ex_url ''faces/u1/1.webp'') 1 ''approved''
        \<lparr>width = Some 512, height = Some 512, scale = 1.5, rotation = 10,
          offsetX = 0, offsetY = 0\<rparr>,
      snd (process_face ex_env ex_state_noprofile ex_request))"
    by (simp add: ex_defs op_defs)
  have b: "profiles ex_state (req_user_id ex_request) = Some ex_profile"
    "req_user_id ex_request = ''u1''" "face_version ex_profile = 0"
    "int4_ok (face_version ex_profile)"
    "profiles ex_state_noprofile (req_user_id ex_request) = None"
    by (simp_all add: ex_state_def ex_state_noprofile_def ex_request_def ex_profile_def
          int4_ok_def)
  from meta_normalized [OF h, of ex_profile] meta_normalized [OF k, of ex_profile] h k b
  show ?thesis by simp
qed

text \<open>
  C8 as the spec states it fails. A request with scale 0 is answered with scale 1. A
  request for a user without a profile is answered with the meta and no profile stores
  it. A request for a profile whose version is 2147483647 is answered with the meta and
  the profile keeps the meta it had.
\<close>

theorem meta_counterexample:
  "Option.bind (req_face_meta ex_request_zero) rq_scale = Some 0
   \<and> fst (process_face ex_env ex_state ex_request_zero) =
       Success (ex_url ''faces/u1/1.webp'') 1 ''approved''
         \<lparr>width = Some 512, height = Some 512, scale = 1, rotation = 0,
           offsetX = 0, offsetY = 0\<rparr>
   \<and> fst (process_face ex_env ex_state_noprofile ex_request) =
       Success (ex_url ''faces/u1/1.webp'') 1 ''approved''
         \<lparr>width = Some 512, height = Some 512, scale = 1.5, rotation = 10,
           offsetX = 0, offsetY = 0\<rparr>
   \<and> profiles (snd (process_face ex_env ex_state_noprofile ex_request)) ''u1'' = None
   \<and> fst (process_face ex_env ex_state_max ex_request) =
       Success (ex_url (processedPath ''u1'' 2147483648)) 2147483648 ''approved''
         \<lparr>width = Some 512, height = Some 512, scale = 1.5, rotation = 10,
           offsetX = 0, offsetY = 0\<rparr>
   \<and> map_option face_meta (profiles (snd (process_face ex_env ex_state_max ex_request)) ''u1'')
       = Some \<lparr>width = None, height = None, scale = 1, rotation = 0,
               offsetX = 0, offsetY = 0\<rparr>"
  by (simp add: ex_defs op_defs)

section \<open>The processed asset\<close>

text \<open>
  C10. A successful call found a raw object of an allowed type at \<^verbatim>\<open>raw_path\<close>, and the
  bucket afterwards is the bucket before with one object written, at
  \<^verbatim>\<open>faces/{user_id}/{version}.webp\<close>: the bytes of the raw object, unchanged, with the
  content type \<^verbatim>\<open>image/webp\<close> whatever the type of the raw object.
\<close>

theorem processed_bytes_are_raw_bytes:
  assumes "process_face pe st rq = (Success url v s m, st')"
  shows "\<exists>raw. storage st (req_raw_path rq) = Some raw
           \<and> blob_type raw \<in> set allowedTypes
           \<and> storage st' =
               (storage st)(''faces/'' @ req_user_id rq @ ''/'' @ string_of_int v @ ''.webp''
                  \<mapsto> \<lparr>blob_bytes = blob_bytes raw, blob_type = ''image/webp''\<rparr>)"
  using assms
  by (auto simp: process_face_def process_face_try_def Let_def storage_download_def
        storage_upload_def server_admission_def processedPath_def
        split: sum.splits option.splits prod.splits if_splits)

theorem processed_bytes_are_raw_bytes_witness:
  "process_face ex_env ex_state ex_request =
     (Success (ex_url ''faces/u1/1.webp'') 1 ''approved''
        \<lparr>width = Some 512, height = Some 512, scale = 1.5, rotation = 10,
          offsetX = 0, offsetY = 0\<rparr>,
      snd (process_face ex_env ex_state ex_request))
   \<and> storage ex_state ''user-uploads/raw/u1/id1.png''
       = Some \<lparr>blob_bytes = [1, 2, 3], blob_type = ''image/png''\<rparr>
   \<and> storage (snd (process_face ex_env ex_state ex_request)) ''faces/u1/1.webp''
       = Some \<lparr>blob_bytes = [1, 2, 3], blob_type = ''image/webp''\<rparr>"
proof -
  have h: "process_face ex_env ex_state ex_request =
     (Success (ex_url ''faces/u1/1.webp'') 1 ''approved''
        \<lparr>width = Some 512, height = Some 512, scale = 1.5, rotation = 10,
          offsetX = 0, offsetY = 0\<rparr>,
      snd (process_face ex_env ex_state ex_request))"
    by (simp add: ex_defs op_defs)
  have b: "storage ex_state ''user-uploads/raw/u1/id1.png''
       = Some \<lparr>blob_bytes = [1, 2, 3], blob_type = ''image/png''\<rparr>"
    "req_raw_path ex_request = ''user-uploads/raw/u1/id1.png''"
    "req_user_id ex_request = ''u1''"
    by (simp_all add: ex_state_def ex_blob_def ex_request_def)
  have c: "string_of_int 1 = ''1''"
    by (simp add: string_of_int_def digit_char_def)
  from processed_bytes_are_raw_bytes [OF h] h b c show ?thesis by auto
qed

end
